theory Spec2Isabelle
  imports Complex_Main
begin

section \<open>The breathing bubble of \<open>src/pages/Index.tsx\<close>\<close>

text \<open>
  The page is one component: a four-phase breathing timer, a particle backdrop and a
  press-and-hold score, all driven by one per-frame callback. The component's React
  state and refs become the fields of one record, every handler becomes a function from
  state to state, and the values that the browser supplies (the frame timestamp, the
  value of \<open>performance.now()\<close>, the window size, the outcomes of \<open>Math.random()\<close>)
  become arguments. A JavaScript \<open>number\<close> is modelled as a real number: rounding of
  IEEE doubles is not part of the model. State setters take effect at once, and the
  frame callback reads the current \<open>isActive\<close>. Calls on the drawing context leave no
  trace in the component's state and are not modelled.
\<close>

subsection \<open>Data model\<close>

text \<open>The interface \<open>Particle\<close>; \<open>p_color = None\<close> is JavaScript's \<open>undefined\<close>.\<close>

record particle =
  p_x :: real
  p_y :: real
  p_vx :: real
  p_vy :: real
  p_size :: real
  p_color :: "string option"
  p_alpha :: real

record cycle =
  inhale :: real
  hold :: real
  exhale :: real
  rest :: real

text \<open>
  \<open>useState\<close> values (\<open>isActive\<close>, \<open>phase\<close>, \<open>syncPercentage\<close>), the refs, and the
  canvas element's \<open>width\<close> and \<open>height\<close> (unsigned integers in the DOM).
\<close>

record state =
  isActive :: bool
  phase :: string
  syncPercentage :: real
  startTimeRef :: real
  isPressingRef :: bool
  pressStartTimeRef :: real
  particlesRef :: "particle list"
  canvasWidth :: nat
  canvasHeight :: nat

text \<open>What one frame derives from the cycle time (the four \<open>let\<close> variables).\<close>

record phase_params =
  currentPhase :: string
  phaseProgress :: real
  bubbleScale :: real
  glowIntensity :: real

subsection \<open>Constants and easing functions\<close>

definition CYCLE :: cycle where
  "CYCLE = \<lparr>inhale = 4, hold = 2, exhale = 6, rest = 2\<rparr>"

definition TOTAL_CYCLE :: real where
  "TOTAL_CYCLE = inhale CYCLE + hold CYCLE + exhale CYCLE + rest CYCLE"

definition easeInOutCubic :: "real \<Rightarrow> real" where
  "easeInOutCubic t = (if t < 0.5 then 4 * t * t * t else 1 - (-2 * t + 2) ^ 3 / 2)"

definition easeOutQuad :: "real \<Rightarrow> real" where
  "easeOutQuad t = 1 - (1 - t) * (1 - t)"

text \<open>
  The remainder operator \<open>%\<close> of JavaScript: the quotient is truncated towards zero, so
  the result has the sign of the dividend. (For a zero divisor JavaScript gives NaN; the
  only divisor in the program is \<open>TOTAL_CYCLE\<close>.)
\<close>

definition js_rem :: "real \<Rightarrow> real \<Rightarrow> real" where
  "js_rem a b = a - b * of_int (if 0 \<le> a / b then \<lfloor>a / b\<rfloor> else \<lceil>a / b\<rceil>)"

subsection \<open>Particles\<close>

definition colors :: "string list" where
  "colors = [''#5FD4D6'', ''#A78BFA'', ''#F9A8D4'']"

text \<open>\<open>colors[Math.floor(r * colors.length)]\<close>; an index outside the array reads \<open>undefined\<close>.\<close>

definition pickColor :: "real \<Rightarrow> string option" where
  "pickColor r =
     (let i = \<lfloor>r * real (length colors)\<rfloor>
      in if 0 \<le> i \<and> i < int (length colors) then Some (colors ! nat i) else None)"

text \<open>
  The object literal pushed by iteration \<open>i\<close> of the loop. Its seven calls of
  \<open>Math.random()\<close> are the draws \<open>7 * i\<close> to \<open>7 * i + 6\<close> of the source \<open>rnd\<close>, in the
  order of the fields.
\<close>

definition newParticle :: "(nat \<Rightarrow> real) \<Rightarrow> nat \<Rightarrow> nat \<Rightarrow> nat \<Rightarrow> particle" where
  "newParticle rnd w h i =
     \<lparr>p_x = rnd (7 * i) * real w,
      p_y = rnd (7 * i + 1) * real h,
      p_vx = (rnd (7 * i + 2) - 0.5) * 0.5,
      p_vy = (rnd (7 * i + 3) - 0.5) * 0.5,
      p_size = rnd (7 * i + 4) * 3 + 1,
      p_color = pickColor (rnd (7 * i + 5)),
      p_alpha = rnd (7 * i + 6) * 0.3 + 0.1\<rparr>"

text \<open>The loop \<open>for (let i = 0; i < 30; i++) particles.push(...)\<close>.\<close>

function pushLoop :: "(nat \<Rightarrow> real) \<Rightarrow> nat \<Rightarrow> nat \<Rightarrow> nat \<Rightarrow> particle list \<Rightarrow> particle list" where
  "pushLoop rnd w h i particles =
     (if i < 30 then pushLoop rnd w h (i + 1) (particles @ [newParticle rnd w h i])
      else particles)"
  by pat_completeness auto
termination
  by (relation "measure (\<lambda>(rnd, w, h, i, particles). 30 - i)") auto

declare pushLoop.simps [simp del]

definition initParticles :: "(nat \<Rightarrow> real) \<Rightarrow> state \<Rightarrow> state" where
  "initParticles rnd s =
     s\<lparr>particlesRef := pushLoop rnd (canvasWidth s) (canvasHeight s) 0 []\<rparr>"

text \<open>The body of the \<open>forEach\<close> callback of \<open>drawParticles\<close>, without the drawing calls.\<close>

definition updateParticle :: "nat \<Rightarrow> nat \<Rightarrow> particle \<Rightarrow> particle" where
  "updateParticle w h p =
     (let p1 = p\<lparr>p_x := p_x p + p_vx p\<rparr>;
          p2 = p1\<lparr>p_y := p_y p1 + p_vy p1\<rparr>;
          p3 = (if p_x p2 < 0 then p2\<lparr>p_x := real w\<rparr> else p2);
          p4 = (if p_x p3 > real w then p3\<lparr>p_x := 0\<rparr> else p3);
          p5 = (if p_y p4 < 0 then p4\<lparr>p_y := real h\<rparr> else p4);
          p6 = (if p_y p5 > real h then p5\<lparr>p_y := 0\<rparr> else p5)
      in p6)"

definition drawParticles :: "state \<Rightarrow> state" where
  "drawParticles s =
     s\<lparr>particlesRef := map (updateParticle (canvasWidth s) (canvasHeight s)) (particlesRef s)\<rparr>"

text \<open>\<open>resizeCanvas\<close>, with the new \<open>window.innerWidth\<close> and \<open>window.innerHeight\<close>.\<close>

definition resizeCanvas :: "nat \<Rightarrow> nat \<Rightarrow> (nat \<Rightarrow> real) \<Rightarrow> state \<Rightarrow> state" where
  "resizeCanvas innerWidth innerHeight rnd s =
     (let s1 = s\<lparr>canvasWidth := innerWidth, canvasHeight := innerHeight\<rparr>
      in if length (particlesRef s1) = 0 then initParticles rnd s1 else s1)"

subsection \<open>The frame callback\<close>

text \<open>The phase of a cycle time and the animation parameters that go with it.\<close>

definition phaseParams :: "real \<Rightarrow> phase_params" where
  "phaseParams cycleTime =
     (if cycleTime < inhale CYCLE then
        (let progress = cycleTime / inhale CYCLE;
             eased = easeInOutCubic progress
         in \<lparr>currentPhase = ''Inhale'', phaseProgress = progress,
             bubbleScale = 1 + eased * 0.5, glowIntensity = 0.5 + eased * 0.5\<rparr>)
      else if cycleTime < inhale CYCLE + hold CYCLE then
        \<lparr>currentPhase = ''Hold'',
         phaseProgress = (cycleTime - inhale CYCLE) / hold CYCLE,
         bubbleScale = 1.5, glowIntensity = 1\<rparr>
      else if cycleTime < inhale CYCLE + hold CYCLE + exhale CYCLE then
        (let progress = (cycleTime - inhale CYCLE - hold CYCLE) / exhale CYCLE;
             eased = easeOutQuad progress
         in \<lparr>currentPhase = ''Exhale'', phaseProgress = progress,
             bubbleScale = 1.5 - eased * 0.5, glowIntensity = 1 - eased * 0.5\<rparr>)
      else
        \<lparr>currentPhase = ''Rest'',
         phaseProgress = (cycleTime - inhale CYCLE - hold CYCLE - exhale CYCLE) / rest CYCLE,
         bubbleScale = 1, glowIntensity = 0.5\<rparr>)"

text \<open>The parameters of the frame drawn \<open>elapsed\<close> seconds after the session's origin.\<close>

definition frameParams :: "real \<Rightarrow> phase_params" where
  "frameParams elapsed = phaseParams (js_rem elapsed TOTAL_CYCLE)"

text \<open>The origin of elapsed time: \<open>0\<close> in \<open>startTimeRef\<close> stands for "unset".\<close>

definition establishStart :: "real \<Rightarrow> state \<Rightarrow> state" where
  "establishStart timestamp s =
     (if startTimeRef s = 0 then s\<lparr>startTimeRef := timestamp\<rparr> else s)"

definition elapsedAt :: "real \<Rightarrow> state \<Rightarrow> real" where
  "elapsedAt timestamp s = (timestamp - startTimeRef (establishStart timestamp s)) / 1000"

text \<open>The functional update passed to \<open>setSyncPercentage\<close>.\<close>

definition adjustSync :: "bool \<Rightarrow> real \<Rightarrow> real" where
  "adjustSync isCorrectPhase prev =
     (let adjustment = (if isCorrectPhase then 1 else -2)
      in max 0 (min 100 (prev + adjustment * 0.1)))"

definition scoreFrame :: "string \<Rightarrow> state \<Rightarrow> state" where
  "scoreFrame cur s =
     (if isPressingRef s then
        (let targetPhase =
               (if cur = ''Inhale'' then ''Inhale''
                else if cur = ''Hold'' then ''Hold'' else ''None'');
             isCorrectPhase = (targetPhase = ''Inhale'' \<or> targetPhase = ''Hold'')
         in s\<lparr>syncPercentage := adjustSync isCorrectPhase (syncPercentage s)\<rparr>)
      else s)"

definition animate :: "real \<Rightarrow> state \<Rightarrow> state" where
  "animate timestamp s =
     (if \<not> isActive s then s
      else
        (let s1 = establishStart timestamp s;
             elapsed = (timestamp - startTimeRef s1) / 1000;
             params = frameParams elapsed;
             s2 = s1\<lparr>phase := currentPhase params\<rparr>;
             s3 = scoreFrame (currentPhase params) s2
         in drawParticles s3))"

subsection \<open>Handlers\<close>

definition handleStart :: "state \<Rightarrow> state" where
  "handleStart s = s\<lparr>isActive := True, startTimeRef := 0, syncPercentage := 100\<rparr>"

definition handleReset :: "state \<Rightarrow> state" where
  "handleReset s =
     s\<lparr>isActive := False, startTimeRef := 0, phase := ''Ready'', syncPercentage := 100,
       isPressingRef := False\<rparr>"

definition handleMouseDown :: "real \<Rightarrow> state \<Rightarrow> state" where
  "handleMouseDown now s = s\<lparr>isPressingRef := True, pressStartTimeRef := now\<rparr>"

definition handleMouseUp :: "state \<Rightarrow> state" where
  "handleMouseUp s = s\<lparr>isPressingRef := False\<rparr>"

subsection \<open>Event sequences\<close>

text \<open>
  Everything that can happen to the mounted component: a press begins (mouse or touch,
  with the value of \<open>performance.now()\<close>) or ends, the frame callback runs with its
  timestamp, the Start or Reset button is clicked, the window is resized. The effect that
  installs the frame callback calls \<open>resizeCanvas\<close> itself each time it runs (on mount and
  when \<open>isActive\<close> changes); such a call is a \<open>Resize\<close> event too.
\<close>

datatype event =
  PressBegin real
  | PressEnd
  | Frame real
  | Start
  | Reset
  | Resize nat nat "nat \<Rightarrow> real"

fun step :: "state \<Rightarrow> event \<Rightarrow> state" where
  "step s (PressBegin now) = handleMouseDown now s"
| "step s PressEnd = handleMouseUp s"
| "step s (Frame timestamp) = animate timestamp s"
| "step s Start = handleStart s"
| "step s Reset = handleReset s"
| "step s (Resize w h rnd) = resizeCanvas w h rnd s"

definition run :: "state \<Rightarrow> event list \<Rightarrow> state" where
  "run s evs = foldl step s evs"

text \<open>
  The state of the first render: the initial values of \<open>useState\<close> and \<open>useRef\<close>, and
  a canvas element of the default size 300 by 150.
\<close>

definition initial :: state where
  "initial =
     \<lparr>isActive = False, phase = ''Ready'', syncPercentage = 100, startTimeRef = 0,
      isPressingRef = False, pressStartTimeRef = 0, particlesRef = [],
      canvasWidth = 300, canvasHeight = 150\<rparr>"

subsection \<open>Predicates and inputs used in the statements\<close>

text \<open>The sync score is a percentage.\<close>

definition sync_ok :: "state \<Rightarrow> bool" where
  "sync_ok s = (0 \<le> syncPercentage s \<and> syncPercentage s \<le> 100)"

text \<open>A particle lies on a surface of \<open>w\<close> by \<open>h\<close> pixels, both edges included.\<close>

definition in_surface :: "nat \<Rightarrow> nat \<Rightarrow> particle \<Rightarrow> bool" where
  "in_surface w h p = (0 \<le> p_x p \<and> p_x p \<le> real w \<and> 0 \<le> p_y p \<and> p_y p \<le> real h)"

text \<open>
  One possible run of \<open>Math.random()\<close>: the first call returns \<open>1/1024\<close>, the third
  returns \<open>0\<close>, every other call returns \<open>1/2\<close>. All three values are doubles in
  \<open>[0, 1)\<close>. On a surface 100 pixels wide the first particle is then created at
  \<open>x = 100/1024\<close> with \<open>vx = (0 - 0.5) * 0.5 = -0.25\<close>.
\<close>

definition edgeDraws :: "nat \<Rightarrow> real" where
  "edgeDraws n = (if n = 0 then 1 / 1024 else if n = 2 then 0 else 1 / 2)"

text \<open>
  Another possible run: the first two calls return \<open>1/1024\<close>, the third and fourth
  return \<open>0\<close>, every other call returns \<open>1/2\<close>. On a surface of 100 by 100 the first
  particle is then created at \<open>x = y = 100/1024\<close> with \<open>vx = vy = -0.25\<close>, so that its
  first update takes it across the left and the top edge at once.
\<close>

definition cornerDraws :: "nat \<Rightarrow> real" where
  "cornerDraws n = (if n < 2 then 1 / 1024 else if n < 4 then 0 else 1 / 2)"

section \<open>Basic facts\<close>

subsection \<open>The remainder\<close>

lemma TOTAL_CYCLE_eq: "TOTAL_CYCLE = 14"
  by (simp add: TOTAL_CYCLE_def CYCLE_def)

lemma floor_mod_range:
  fixes a b :: real
  assumes "0 < b"
  shows "0 \<le> a - b * of_int \<lfloor>a / b\<rfloor>" and "a - b * of_int \<lfloor>a / b\<rfloor> < b"
proof -
  have "of_int \<lfloor>a / b\<rfloor> \<le> a / b" by (rule of_int_floor_le)
  then have "of_int \<lfloor>a / b\<rfloor> * b \<le> a" using assms by (simp only: pos_le_divide_eq)
  then have "b * of_int \<lfloor>a / b\<rfloor> \<le> a" by (simp only: mult.commute)
  then show "0 \<le> a - b * of_int \<lfloor>a / b\<rfloor>" by simp
  have "a / b < of_int \<lfloor>a / b\<rfloor> + 1" by linarith
  then have "a < (of_int \<lfloor>a / b\<rfloor> + 1) * b" using assms by (simp only: pos_divide_less_eq)
  then show "a - b * of_int \<lfloor>a / b\<rfloor> < b" by (simp add: algebra_simps)
qed

text \<open>On a non-negative dividend \<open>%\<close> is the mathematical remainder.\<close>

lemma js_rem_nonneg: "0 \<le> a \<Longrightarrow> 0 < b \<Longrightarrow> js_rem a b = a - b * of_int \<lfloor>a / b\<rfloor>"
  by (simp add: js_rem_def)

lemma js_rem_small: "0 \<le> a \<Longrightarrow> a < b \<Longrightarrow> js_rem a b = a"
proof -
  assume a: "0 \<le> a" "a < b"
  then have q: "0 \<le> a / b" "a / b < 1" by simp_all
  then have "\<lfloor>a / b\<rfloor> = 0" by (simp add: floor_eq_iff)
  with q show ?thesis by (simp add: js_rem_def)
qed

lemma js_rem_shift: "0 \<le> e \<Longrightarrow> js_rem (e + 14) 14 = js_rem e 14"
  by (simp add: js_rem_nonneg add_divide_distrib algebra_simps)

subsection \<open>The cubic easing is monotone\<close>

lemma cube_mono: "(a::real) \<le> b \<Longrightarrow> a ^ 3 \<le> b ^ 3"
  by (rule power_mono_odd) simp_all

lemma easeInOutCubic_mono:
  assumes "t1 \<le> t2"
  shows "easeInOutCubic t1 \<le> easeInOutCubic t2"
proof -
  have low: "4 * t * t * t = 4 * t ^ 3" for t :: real
    by (simp add: power3_eq_cube)
  consider "t2 < 0.5" | "t1 < 0.5" "0.5 \<le> t2" | "0.5 \<le> t1"
    using assms by linarith
  then show ?thesis
  proof cases
    case 1
    with assms have "t1 < 0.5" by simp
    with 1 show ?thesis
      using cube_mono [OF assms] by (simp add: easeInOutCubic_def low)
  next
    case 2
    have "t1 ^ 3 \<le> (1 / 2) ^ 3" using 2 by (intro cube_mono) simp
    then have a: "4 * t1 ^ 3 \<le> 1 / 2" by (simp add: power3_eq_cube)
    have "(- 2 * t2 + 2) ^ 3 \<le> 1 ^ 3" using 2 by (intro cube_mono) simp
    then have b: "1 / 2 \<le> 1 - (- 2 * t2 + 2) ^ 3 / 2" by simp
    from a b 2 show ?thesis by (simp add: easeInOutCubic_def low)
  next
    case 3
    with assms have "0.5 \<le> t2" by simp
    have "(- 2 * t2 + 2) ^ 3 \<le> (- 2 * t1 + 2) ^ 3"
      using assms by (intro cube_mono) simp
    with 3 \<open>0.5 \<le> t2\<close> show ?thesis by (simp add: easeInOutCubic_def)
  qed
qed

lemma easeInOutCubic_0: "easeInOutCubic 0 = 0"
  by (simp add: easeInOutCubic_def)

lemma easeInOutCubic_1: "easeInOutCubic 1 = 1"
  by (simp add: easeInOutCubic_def)

lemma inhale_scale_eq:
  "e < inhale CYCLE \<Longrightarrow>
     bubbleScale (phaseParams e) = 1 + easeInOutCubic (e / inhale CYCLE) * 0.5"
  by (simp add: phaseParams_def Let_def)

text \<open>
  Just below the end of the inhale the scale is a polynomial in the cycle time, which
  is continuous and takes the value \<open>1.5\<close> at the boundary.
\<close>

lemma inhale_scale_limit:
  "((\<lambda>e. bubbleScale (phaseParams e)) \<longlongrightarrow> 1.5) (at_left (inhale CYCLE))"
proof -
  let ?g = "\<lambda>e::real. 1 + (1 - (- 2 * (e / 4) + 2) ^ 3 / 2) * 0.5"
  have "(?g \<longlongrightarrow> ?g 4) (at_left 4)"
    by (intro tendsto_intros) simp_all
  then have g: "(?g \<longlongrightarrow> 1.5) (at_left 4)" by simp
  have ev: "eventually (\<lambda>e. ?g e = bubbleScale (phaseParams e)) (at_left (4::real))"
    unfolding eventually_at_left_field
    by (rule exI [of _ 2]) (simp add: phaseParams_def CYCLE_def easeInOutCubic_def Let_def)
  have "((\<lambda>e. bubbleScale (phaseParams e)) \<longlongrightarrow> 1.5) (at_left 4)"
    by (rule Lim_transform_eventually [OF g ev])
  then show ?thesis by (simp add: CYCLE_def)
qed

subsection \<open>The frame callback, field by field\<close>

lemma animate_inactive: "\<not> isActive s \<Longrightarrow> animate ts s = s"
  by (simp add: animate_def)

lemma animate_active:
  "isActive s \<Longrightarrow>
     animate ts s =
       drawParticles (scoreFrame (currentPhase (frameParams (elapsedAt ts s)))
         ((establishStart ts s)\<lparr>phase := currentPhase (frameParams (elapsedAt ts s))\<rparr>))"
  by (simp add: animate_def elapsedAt_def Let_def)

lemma drawParticles_fields:
  "syncPercentage (drawParticles s) = syncPercentage s" "phase (drawParticles s) = phase s"
  "canvasWidth (drawParticles s) = canvasWidth s" "canvasHeight (drawParticles s) = canvasHeight s"
  "particlesRef (drawParticles s)
     = map (updateParticle (canvasWidth s) (canvasHeight s)) (particlesRef s)"
  by (simp_all add: drawParticles_def)

text \<open>\<open>targetPhase\<close> is Inhale or Hold exactly when the current phase is.\<close>

lemma correct_window:
  "((if cur = ''Inhale'' then ''Inhale'' else if cur = ''Hold'' then ''Hold'' else ''None'')
      = ''Inhale''
    \<or> (if cur = ''Inhale'' then ''Inhale'' else if cur = ''Hold'' then ''Hold'' else ''None'')
      = ''Hold'')
   = (cur = ''Inhale'' \<or> cur = ''Hold'')"
  by simp

lemma scoreFrame_fields:
  "syncPercentage (scoreFrame cur s) =
     (if isPressingRef s then adjustSync (cur = ''Inhale'' \<or> cur = ''Hold'') (syncPercentage s)
      else syncPercentage s)"
  "phase (scoreFrame cur s) = phase s"
  "particlesRef (scoreFrame cur s) = particlesRef s"
  "canvasWidth (scoreFrame cur s) = canvasWidth s"
  "canvasHeight (scoreFrame cur s) = canvasHeight s"
  unfolding scoreFrame_def Let_def correct_window by simp_all

lemma establishStart_fields:
  "syncPercentage (establishStart ts s) = syncPercentage s"
  "isPressingRef (establishStart ts s) = isPressingRef s"
  "particlesRef (establishStart ts s) = particlesRef s"
  "canvasWidth (establishStart ts s) = canvasWidth s"
  "canvasHeight (establishStart ts s) = canvasHeight s"
  by (simp_all add: establishStart_def)

lemma animate_particles:
  "particlesRef (animate ts s) =
     (if isActive s then map (updateParticle (canvasWidth s) (canvasHeight s)) (particlesRef s)
      else particlesRef s)"
  by (simp add: animate_inactive animate_active drawParticles_fields scoreFrame_fields
      establishStart_fields)

lemma animate_canvas:
  "canvasWidth (animate ts s) = canvasWidth s \<and> canvasHeight (animate ts s) = canvasHeight s"
  by (cases "isActive s")
    (simp_all add: animate_inactive animate_active drawParticles_fields scoreFrame_fields
      establishStart_fields)

lemma frameParams_0: "currentPhase (frameParams 0) = ''Inhale''"
  by (simp add: frameParams_def js_rem_def phaseParams_def CYCLE_def Let_def)

lemma elapsedAt_unset: "startTimeRef s = 0 \<Longrightarrow> elapsedAt ts s = 0"
  by (simp add: elapsedAt_def establishStart_def)

subsection \<open>The score stays a percentage\<close>

lemma adjustSync_bounds: "0 \<le> adjustSync c prev \<and> adjustSync c prev \<le> 100"
  by (simp add: adjustSync_def Let_def)

lemma animate_sync_ok: "sync_ok s \<Longrightarrow> sync_ok (animate ts s)"
  using adjustSync_bounds
  by (cases "isActive s")
    (simp_all add: sync_ok_def animate_inactive animate_active drawParticles_fields
      scoreFrame_fields establishStart_fields)

lemma step_sync_ok: "sync_ok s \<Longrightarrow> sync_ok (step s ev)"
proof (cases ev)
  case (Frame ts)
  assume "sync_ok s"
  with Frame show ?thesis by (simp add: animate_sync_ok)
next
  case (Resize w h rnd)
  assume "sync_ok s"
  with Resize show ?thesis
    by (simp add: resizeCanvas_def initParticles_def sync_ok_def Let_def)
qed (simp_all add: sync_ok_def handleMouseDown_def handleMouseUp_def handleStart_def
    handleReset_def)

lemma run_sync_ok: "sync_ok s \<Longrightarrow> sync_ok (run s evs)"
  unfolding run_def by (induction evs arbitrary: s) (simp_all add: step_sync_ok)

subsection \<open>The particle set\<close>

text \<open>The loop pushes the particles of the iterations that are left, in order.\<close>

lemma pushLoop_eq:
  "i \<le> 30 \<Longrightarrow> pushLoop rnd w h i acc = acc @ map (newParticle rnd w h) [i..<30]"
proof (induction rnd w h i acc rule: pushLoop.induct)
  case (1 rnd w h i particles)
  show ?case
  proof (cases "i < 30")
    case True
    then have "pushLoop rnd w h i particles
        = pushLoop rnd w h (i + 1) (particles @ [newParticle rnd w h i])"
      by (subst pushLoop.simps) simp
    also have "\<dots> = (particles @ [newParticle rnd w h i]) @ map (newParticle rnd w h) [i + 1..<30]"
      using True by (intro "1.IH") simp_all
    also have "\<dots> = particles @ map (newParticle rnd w h) [i..<30]"
      using True by (simp add: upt_conv_Cons)
    finally show ?thesis .
  next
    case False
    with "1.prems" have "i = 30" by simp
    then show ?thesis by (subst pushLoop.simps) simp
  qed
qed

lemma initParticles_eq:
  "particlesRef (initParticles rnd s)
     = map (newParticle rnd (canvasWidth s) (canvasHeight s)) [0..<30]"
  by (simp add: initParticles_def pushLoop_eq)

lemma resizeCanvas_empty:
  "particlesRef s = [] \<Longrightarrow>
     particlesRef (resizeCanvas w h rnd s) = map (newParticle rnd w h) [0..<30]"
  by (simp add: resizeCanvas_def initParticles_eq)

lemma resizeCanvas_nonempty:
  "particlesRef s \<noteq> [] \<Longrightarrow> particlesRef (resizeCanvas w h rnd s) = particlesRef s"
  by (simp add: resizeCanvas_def)

lemma resizeCanvas_canvas:
  "canvasWidth (resizeCanvas w h rnd s) = w \<and> canvasHeight (resizeCanvas w h rnd s) = h"
  by (simp add: resizeCanvas_def initParticles_def Let_def)

lemma step_length_30: "length (particlesRef s) = 30 \<Longrightarrow> length (particlesRef (step s ev)) = 30"
proof (cases ev)
  case (Resize w h rnd)
  assume l: "length (particlesRef s) = 30"
  then have "particlesRef s \<noteq> []" by auto
  with Resize l show ?thesis by (simp add: resizeCanvas_nonempty)
qed (simp_all add: animate_particles handleMouseDown_def handleMouseUp_def handleStart_def
    handleReset_def)

lemma run_length_30: "length (particlesRef s) = 30 \<Longrightarrow> length (particlesRef (run s evs)) = 30"
  unfolding run_def by (induction evs arbitrary: s) (simp_all add: step_length_30)

lemma updateParticle_static:
  "p_vx (updateParticle w h p) = p_vx p \<and> p_vy (updateParticle w h p) = p_vy p
   \<and> p_size (updateParticle w h p) = p_size p \<and> p_color (updateParticle w h p) = p_color p
   \<and> p_alpha (updateParticle w h p) = p_alpha p"
  by (simp add: updateParticle_def Let_def)

text \<open>Whatever the particle was, one update leaves it on the surface, edges included.\<close>

lemma updateParticle_in_surface: "in_surface w h (updateParticle w h p)"
  by (simp add: in_surface_def updateParticle_def Let_def)

lemma drawParticles_pow_canvas:
  "canvasWidth ((drawParticles ^^ n) s) = canvasWidth s
   \<and> canvasHeight ((drawParticles ^^ n) s) = canvasHeight s"
  by (induction n) (simp_all add: drawParticles_fields)

subsection \<open>The run of \<open>edgeDraws\<close> on a surface of 100 by 100\<close>

lemma edge_first_particle:
  "newParticle edgeDraws 100 100 0
     = \<lparr>p_x = 100 / 1024, p_y = 50, p_vx = - 0.25, p_vy = 0, p_size = 2.5,
        p_color = Some ''#A78BFA'', p_alpha = 0.25\<rparr>"
  by (simp add: newParticle_def edgeDraws_def pickColor_def colors_def)

lemma edge_particles_in_surface: "in_surface 100 100 (newParticle edgeDraws 100 100 i)"
  by (simp add: in_surface_def newParticle_def edgeDraws_def)

lemma edge_resize_particles:
  "particlesRef (resizeCanvas 100 100 edgeDraws initial)
     = map (newParticle edgeDraws 100 100) [0..<30]"
proof -
  have "particlesRef initial = []" by (simp add: initial_def)
  then show ?thesis by (rule resizeCanvas_empty)
qed

lemma edge_first_created:
  "hd (particlesRef (resizeCanvas 100 100 edgeDraws initial)) = newParticle edgeDraws 100 100 0"
  by (simp add: edge_resize_particles hd_map)

lemma edge_first_after_frame:
  "hd (particlesRef (run initial [Resize 100 100 edgeDraws, Start, Frame 16]))
     = updateParticle 100 100 (newParticle edgeDraws 100 100 0)"
proof -
  let ?s = "handleStart (resizeCanvas 100 100 edgeDraws initial)"
  have a: "isActive ?s" by (simp add: handleStart_def)
  have p: "particlesRef ?s = map (newParticle edgeDraws 100 100) [0..<30]"
    by (simp add: handleStart_def edge_resize_particles)
  have c: "canvasWidth ?s = 100" "canvasHeight ?s = 100"
    by (simp_all add: handleStart_def resizeCanvas_canvas)
  show ?thesis
    by (simp add: run_def animate_particles a p c hd_map)
qed

subsection \<open>Where the wrap-around puts a particle\<close>

text \<open>
  A particle whose step takes it below 0 is put on the far edge itself, not next to it:
  the test for the far side is strict, so the edge value is kept.
\<close>

lemma wrap_left: "p_x p + p_vx p < 0 \<Longrightarrow> p_x (updateParticle w h p) = real w"
  by (simp add: updateParticle_def Let_def)

lemma wrap_top: "p_y p + p_vy p < 0 \<Longrightarrow> p_y (updateParticle w h p) = real h"
  by (simp add: updateParticle_def Let_def)

lemma drawParticles_pow_in_surface:
  "list_all (in_surface (canvasWidth s) (canvasHeight s)) (particlesRef s) \<Longrightarrow>
     list_all (in_surface (canvasWidth s) (canvasHeight s))
       (particlesRef ((drawParticles ^^ n) s))"
proof (induction n)
  case 0
  then show ?case by simp
next
  case (Suc n)
  let ?t = "(drawParticles ^^ n) s"
  have "list_all (in_surface (canvasWidth ?t) (canvasHeight ?t)) (particlesRef (drawParticles ?t))"
    by (simp add: drawParticles_fields list_all_iff updateParticle_in_surface)
  then show ?case by (simp add: drawParticles_pow_canvas)
qed

subsection \<open>The run of \<open>cornerDraws\<close> on a surface of 100 by 100\<close>

lemma corner_first_particle:
  "newParticle cornerDraws 100 100 0
     = \<lparr>p_x = 100 / 1024, p_y = 100 / 1024, p_vx = - 0.25, p_vy = - 0.25, p_size = 2.5,
        p_color = Some ''#A78BFA'', p_alpha = 0.25\<rparr>"
  by (simp add: newParticle_def cornerDraws_def pickColor_def colors_def)

lemma corner_particles_in_surface: "in_surface 100 100 (newParticle cornerDraws 100 100 i)"
  by (simp add: in_surface_def newParticle_def cornerDraws_def)

lemma corner_resize_particles:
  "particlesRef (resizeCanvas 100 100 cornerDraws initial)
     = map (newParticle cornerDraws 100 100) [0..<30]"
proof -
  have "particlesRef initial = []" by (simp add: initial_def)
  then show ?thesis by (rule resizeCanvas_empty)
qed

section \<open>The sync score\<close>

text \<open>
  Claim C1. Whatever sequence of press-begin and press-end events, frame updates, start
  and reset actions (and resizes) the component receives after its first render, the sync
  score is within [0, 100] afterwards; every prefix of a sequence is a sequence, so this
  holds at all times. The score starts at 100, and start and reset set it back to 100.
\<close>

theorem sync_in_range:
  "0 \<le> syncPercentage (run initial evs) \<and> syncPercentage (run initial evs) \<le> 100
   \<and> syncPercentage initial = 100 \<and> syncPercentage (handleStart s) = 100
   \<and> syncPercentage (handleReset s) = 100"
proof -
  have "sync_ok initial" by (simp add: sync_ok_def initial_def)
  then have "sync_ok (run initial evs)" by (rule run_sync_ok)
  then show ?thesis by (simp add: sync_ok_def initial_def handleStart_def handleReset_def)
qed

text \<open>
  Claim C3. A frame of an active session with the pressing flag set moves the score by
  \<open>+1 * 0.1\<close> when the phase of that frame is Inhale or Hold and by \<open>-2 * 0.1\<close>
  otherwise, and clamps the result to [0, 100]. A frame with the pressing flag not set, or
  of a session that is not active, leaves the score as it was.
\<close>

theorem frame_scoring:
  "syncPercentage (animate ts s) =
     (if isActive s \<and> isPressingRef s then
        max 0 (min 100 (syncPercentage s +
          (if currentPhase (frameParams (elapsedAt ts s)) = ''Inhale''
              \<or> currentPhase (frameParams (elapsedAt ts s)) = ''Hold''
           then 1 * 0.1 else - 2 * 0.1)))
      else syncPercentage s)"
  by (cases "isActive s")
    (simp_all add: animate_inactive animate_active drawParticles_fields scoreFrame_fields
      establishStart_fields adjustSync_def)

section \<open>Phases and the bubble scale\<close>

text \<open>
  Claim C4. With the durations 4, 2, 6 and 2: at cycle time 4 the phase is Hold and the
  scale is exactly 1.5, at 6 the phase is Exhale and the scale is exactly 1.5, at 12 the
  phase is Rest and the scale is exactly 1. The same holds of the frames drawn 4, 6 and 12
  seconds after the origin.
\<close>

theorem phase_boundaries:
  "currentPhase (phaseParams 4) = ''Hold'' \<and> bubbleScale (phaseParams 4) = 1.5
   \<and> currentPhase (phaseParams 6) = ''Exhale'' \<and> bubbleScale (phaseParams 6) = 1.5
   \<and> currentPhase (phaseParams 12) = ''Rest'' \<and> bubbleScale (phaseParams 12) = 1.0
   \<and> currentPhase (frameParams 4) = ''Hold'' \<and> bubbleScale (frameParams 4) = 1.5
   \<and> currentPhase (frameParams 6) = ''Exhale'' \<and> bubbleScale (frameParams 6) = 1.5
   \<and> currentPhase (frameParams 12) = ''Rest'' \<and> bubbleScale (frameParams 12) = 1.0
   \<and> inhale CYCLE = 4 \<and> inhale CYCLE + hold CYCLE = 6
   \<and> inhale CYCLE + hold CYCLE + exhale CYCLE = 12"
  by (simp add: frameParams_def TOTAL_CYCLE_def js_rem_def phaseParams_def CYCLE_def
      easeOutQuad_def)

text \<open>
  Claim C5. For every non-negative elapsed time \<open>e\<close> the phase of \<open>e\<close> is the phase of
  \<open>e mod totalPeriod\<close>, the mathematical remainder \<open>e - totalPeriod * \<lfloor>e / totalPeriod\<rfloor>\<close>;
  the phase function has period \<open>totalPeriod\<close>, which is 14 seconds.
\<close>

theorem phase_periodic:
  "0 \<le> e \<Longrightarrow>
     currentPhase (frameParams e)
       = currentPhase (frameParams (e - TOTAL_CYCLE * of_int \<lfloor>e / TOTAL_CYCLE\<rfloor>))
     \<and> currentPhase (frameParams (e + TOTAL_CYCLE)) = currentPhase (frameParams e)
     \<and> TOTAL_CYCLE = 14"
proof -
  assume nn: "0 \<le> e"
  let ?m = "e - 14 * of_int \<lfloor>e / 14\<rfloor>"
  have r: "0 \<le> ?m" "?m < 14" using floor_mod_range [of 14 e] by simp_all
  then have "js_rem ?m 14 = ?m" by (rule js_rem_small)
  also have "?m = js_rem e 14" using nn by (simp add: js_rem_nonneg)
  finally have "js_rem ?m 14 = js_rem e 14" .
  with nn show ?thesis by (simp add: frameParams_def TOTAL_CYCLE_eq js_rem_shift)
qed

text \<open>At 33 seconds, two periods and 5 seconds in, the phase is that of 5 seconds: Hold.\<close>

theorem phase_periodic_witness:
  "(0::real) \<le> 33 \<and> 33 - TOTAL_CYCLE * of_int \<lfloor>33 / TOTAL_CYCLE\<rfloor> = 5
   \<and> currentPhase (frameParams 33) = ''Hold'' \<and> currentPhase (frameParams 5) = ''Hold''
   \<and> currentPhase (frameParams (33 + TOTAL_CYCLE)) = ''Hold''"
  using phase_periodic [of 33]
  by (simp add: TOTAL_CYCLE_eq frameParams_def js_rem_def phaseParams_def CYCLE_def)

text \<open>
  Claim C6. On cycle times in \<open>[0, inhale)\<close> the bubble scale is
  \<open>1 + easeInOutCubic (e / inhale) * 0.5\<close>; it is monotonically non-decreasing and lies
  in [1.0, 1.5]; at \<open>e = 0\<close> it is exactly 1.0, and it tends to 1.5 as \<open>e\<close> approaches
  \<open>inhale\<close> from below.
\<close>

theorem inhale_scale:
  "0 \<le> e1 \<Longrightarrow> e1 \<le> e2 \<Longrightarrow> e2 < inhale CYCLE \<Longrightarrow>
     bubbleScale (phaseParams e1) = 1 + easeInOutCubic (e1 / inhale CYCLE) * 0.5
     \<and> bubbleScale (phaseParams e1) \<le> bubbleScale (phaseParams e2)
     \<and> 1 \<le> bubbleScale (phaseParams e1) \<and> bubbleScale (phaseParams e1) \<le> 1.5
     \<and> bubbleScale (phaseParams 0) = 1
     \<and> ((\<lambda>e. bubbleScale (phaseParams e)) \<longlongrightarrow> 1.5) (at_left (inhale CYCLE))"
proof -
  assume a: "0 \<le> e1" "e1 \<le> e2" "e2 < inhale CYCLE"
  have pos: "0 < inhale CYCLE" by (simp add: CYCLE_def)
  from a have lt1: "e1 < inhale CYCLE" by simp
  have m: "easeInOutCubic (e1 / inhale CYCLE) \<le> easeInOutCubic (e2 / inhale CYCLE)"
    using a pos by (intro easeInOutCubic_mono) (simp add: divide_right_mono)
  have lo: "easeInOutCubic 0 \<le> easeInOutCubic (e1 / inhale CYCLE)"
    using a pos by (intro easeInOutCubic_mono) simp
  have hi: "easeInOutCubic (e1 / inhale CYCLE) \<le> easeInOutCubic 1"
    using lt1 pos by (intro easeInOutCubic_mono) simp
  have z: "bubbleScale (phaseParams 0) = 1"
    using pos by (simp add: inhale_scale_eq easeInOutCubic_0)
  show ?thesis
    using m lo hi z inhale_scale_limit a lt1
    by (simp add: inhale_scale_eq easeInOutCubic_0 easeInOutCubic_1)
qed

text \<open>One and two seconds into the inhale the scale is 1.03125 and 1.25.\<close>

theorem inhale_scale_witness:
  "(0::real) \<le> 1 \<and> (1::real) \<le> 2 \<and> 2 < inhale CYCLE
   \<and> bubbleScale (phaseParams 1) = 1.03125 \<and> bubbleScale (phaseParams 2) = 1.25
   \<and> bubbleScale (phaseParams 1) \<le> bubbleScale (phaseParams 2)
   \<and> 1 \<le> bubbleScale (phaseParams 1) \<and> bubbleScale (phaseParams 1) \<le> 1.5"
  using inhale_scale [of 1 2]
  by (simp add: CYCLE_def phaseParams_def easeInOutCubic_def)

section \<open>Start and reset\<close>

text \<open>
  Claim C7. The start action sets the sync score to 100 and the origin of elapsed time to
  unset (the value 0), whatever the state before; on the first frame after it the
  elapsed time is 0 and the reported phase is Inhale, whatever the frame's timestamp.
\<close>

theorem start_then_first_tick:
  "syncPercentage (handleStart s) = 100 \<and> startTimeRef (handleStart s) = 0
   \<and> isActive (handleStart s)
   \<and> elapsedAt ts (handleStart s) = 0
   \<and> phase (animate ts (handleStart s)) = ''Inhale''"
proof -
  have a: "isActive (handleStart s)" and z: "startTimeRef (handleStart s) = 0"
    and p: "syncPercentage (handleStart s) = 100"
    by (simp_all add: handleStart_def)
  from z have e: "elapsedAt ts (handleStart s) = 0" by (rule elapsedAt_unset)
  have "phase (animate ts (handleStart s))
      = currentPhase (frameParams (elapsedAt ts (handleStart s)))"
    by (simp add: animate_active [OF a] drawParticles_fields scoreFrame_fields)
  with a z p e show ?thesis by (simp add: frameParams_0)
qed

text \<open>
  Claim C8. From any prior state, the reset action deactivates the session, sets the
  reported phase to Ready, sets the sync score to 100 and clears the pressing flag.
\<close>

theorem handleReset_clears:
  "\<not> isActive (handleReset s) \<and> phase (handleReset s) = ''Ready''
   \<and> syncPercentage (handleReset s) = 100 \<and> \<not> isPressingRef (handleReset s)"
  by (simp add: handleReset_def)

section \<open>Particles\<close>

text \<open>
  Claim C9. A resize while no particles exist creates exactly 30 particles. Whatever
  events follow, there are still 30 particles, and a later resize leaves the particle
  list as it finds it.
\<close>

theorem resize_initialises_once:
  "particlesRef s = [] \<Longrightarrow>
     length (particlesRef (resizeCanvas w h rnd s)) = 30
     \<and> length (particlesRef (run (resizeCanvas w h rnd s) evs)) = 30
     \<and> particlesRef (resizeCanvas w' h' rnd' (run (resizeCanvas w h rnd s) evs))
         = particlesRef (run (resizeCanvas w h rnd s) evs)"
proof -
  assume e: "particlesRef s = []"
  let ?s1 = "resizeCanvas w h rnd s"
  have l1: "length (particlesRef ?s1) = 30" using e by (simp add: resizeCanvas_empty)
  then have l2: "length (particlesRef (run ?s1 evs)) = 30" by (rule run_length_30)
  then have "particlesRef (run ?s1 evs) \<noteq> []" by auto
  then have "particlesRef (resizeCanvas w' h' rnd' (run ?s1 evs)) = particlesRef (run ?s1 evs)"
    by (rule resizeCanvas_nonempty)
  with l1 l2 show ?thesis by simp
qed

text \<open>The first render, a resize to 100 by 100, a started session, one frame, a resize.\<close>

theorem resize_initialises_once_witness:
  "particlesRef initial = []
   \<and> length (particlesRef (resizeCanvas 100 100 edgeDraws initial)) = 30
   \<and> length (particlesRef (run (resizeCanvas 100 100 edgeDraws initial) [Start, Frame 16])) = 30
   \<and> particlesRef (resizeCanvas 640 480 edgeDraws
         (run (resizeCanvas 100 100 edgeDraws initial) [Start, Frame 16]))
       = particlesRef (run (resizeCanvas 100 100 edgeDraws initial) [Start, Frame 16])"
  using resize_initialises_once [of initial 100 100 edgeDraws "[Start, Frame 16]" 640 480 edgeDraws]
  by (simp add: initial_def)

text \<open>
  Claim C10. A frame changes of a particle only its position: the velocities, sizes,
  colours and opacities of the particles, in their order, are after any frame what they
  were before it (and so the number of particles is, too).
\<close>

theorem frame_keeps_static_fields:
  "map p_vx (particlesRef (animate ts s)) = map p_vx (particlesRef s)
   \<and> map p_vy (particlesRef (animate ts s)) = map p_vy (particlesRef s)
   \<and> map p_size (particlesRef (animate ts s)) = map p_size (particlesRef s)
   \<and> map p_color (particlesRef (animate ts s)) = map p_color (particlesRef s)
   \<and> map p_alpha (particlesRef (animate ts s)) = map p_alpha (particlesRef s)"
  by (simp add: animate_particles updateParticle_static comp_def)

text \<open>
  Claim C2, as the spec states it, puts every particle in the half-open rectangle
  \<open>[0, width) \<times> [0, height)\<close> after any number of updates. The wrap-around sends a
  particle that leaves on the left to \<open>x = width\<close> itself: with the draws \<open>edgeDraws\<close>
  the first particle is created inside the half-open rectangle, and after the first frame
  of the session its \<open>x\<close> is the width of the surface.
\<close>

theorem half_open_counterexample:
  "0 \<le> p_x (hd (particlesRef (run initial [Resize 100 100 edgeDraws])))
   \<and> p_x (hd (particlesRef (run initial [Resize 100 100 edgeDraws]))) < 100
   \<and> 0 \<le> p_y (hd (particlesRef (run initial [Resize 100 100 edgeDraws])))
   \<and> p_y (hd (particlesRef (run initial [Resize 100 100 edgeDraws]))) < 100
   \<and> canvasWidth (run initial [Resize 100 100 edgeDraws, Start, Frame 16]) = 100
   \<and> p_x (hd (particlesRef (run initial [Resize 100 100 edgeDraws, Start, Frame 16]))) = 100
   \<and> \<not> p_x (hd (particlesRef (run initial [Resize 100 100 edgeDraws, Start, Frame 16])))
         < real (canvasWidth (run initial [Resize 100 100 edgeDraws, Start, Frame 16]))"
proof -
  have w: "canvasWidth (run initial [Resize 100 100 edgeDraws, Start, Frame 16]) = 100"
    by (simp add: run_def animate_canvas handleStart_def resizeCanvas_canvas)
  have b: "run initial [Resize 100 100 edgeDraws] = resizeCanvas 100 100 edgeDraws initial"
    by (simp add: run_def)
  show ?thesis
    unfolding w b edge_first_created edge_first_after_frame edge_first_particle
    by (simp add: updateParticle_def Let_def)
qed

text \<open>
  Claim C2, amended. Particles that lie on the surface with its edges included, in
  \<open>[0, width] \<times> [0, height]\<close>, still do after any number of updates on a surface of
  that size. An update applies \<open>updateParticle\<close> to every particle, and a particle whose
  step takes it across the left or the top edge is placed exactly on the right or the
  bottom edge: at \<open>x = width\<close> or \<open>y = height\<close>.
\<close>

theorem particles_stay_on_surface:
  "list_all (in_surface (canvasWidth s) (canvasHeight s)) (particlesRef s) \<Longrightarrow>
     list_all (in_surface (canvasWidth s) (canvasHeight s))
       (particlesRef ((drawParticles ^^ n) s))
     \<and> particlesRef (drawParticles s)
         = map (updateParticle (canvasWidth s) (canvasHeight s)) (particlesRef s)
     \<and> (p_x p + p_vx p < 0 \<longrightarrow>
          p_x (updateParticle (canvasWidth s) (canvasHeight s) p) = real (canvasWidth s))
     \<and> (p_y p + p_vy p < 0 \<longrightarrow>
          p_y (updateParticle (canvasWidth s) (canvasHeight s) p) = real (canvasHeight s))"
proof -
  assume "list_all (in_surface (canvasWidth s) (canvasHeight s)) (particlesRef s)"
  then have "list_all (in_surface (canvasWidth s) (canvasHeight s))
      (particlesRef ((drawParticles ^^ n) s))"
    by (rule drawParticles_pow_in_surface)
  then show ?thesis
    by (simp add: drawParticles_fields wrap_left wrap_top)
qed

text \<open>
  The 30 particles of \<open>cornerDraws\<close> on a surface of 100 by 100. The first one starts at
  \<open>x = y = 100/1024\<close> and steps by \<open>-0.25\<close> in both directions: after one update it is
  at \<open>(100, 100)\<close>, the corner of the closed rectangle, and after two at
  \<open>(99.75, 99.75)\<close>.
\<close>

theorem particles_stay_on_surface_witness:
  "list_all (in_surface 100 100) (particlesRef (resizeCanvas 100 100 cornerDraws initial))
   \<and> list_all (in_surface 100 100)
       (particlesRef ((drawParticles ^^ 2) (resizeCanvas 100 100 cornerDraws initial)))
   \<and> hd (particlesRef (resizeCanvas 100 100 cornerDraws initial))
       = newParticle cornerDraws 100 100 0
   \<and> p_x (newParticle cornerDraws 100 100 0) + p_vx (newParticle cornerDraws 100 100 0) < 0
   \<and> p_y (newParticle cornerDraws 100 100 0) + p_vy (newParticle cornerDraws 100 100 0) < 0
   \<and> p_x (updateParticle 100 100 (newParticle cornerDraws 100 100 0)) = 100
   \<and> p_y (updateParticle 100 100 (newParticle cornerDraws 100 100 0)) = 100
   \<and> p_x (hd (particlesRef (drawParticles (resizeCanvas 100 100 cornerDraws initial)))) = 100
   \<and> p_y (hd (particlesRef (drawParticles (resizeCanvas 100 100 cornerDraws initial)))) = 100
   \<and> p_x (hd (particlesRef ((drawParticles ^^ 2) (resizeCanvas 100 100 cornerDraws initial))))
       = 99.75
   \<and> p_y (hd (particlesRef ((drawParticles ^^ 2) (resizeCanvas 100 100 cornerDraws initial))))
       = 99.75"
proof -
  let ?s = "resizeCanvas 100 100 cornerDraws initial"
  let ?p = "newParticle cornerDraws 100 100 0"
  have c: "canvasWidth ?s = 100" "canvasHeight ?s = 100"
    by (simp_all add: resizeCanvas_canvas)
  have h: "list_all (in_surface (canvasWidth ?s) (canvasHeight ?s)) (particlesRef ?s)"
    unfolding c corner_resize_particles
    by (simp only: list_all_iff set_map) (simp add: corner_particles_in_surface)
  have l: "p_x ?p + p_vx ?p < 0" and t: "p_y ?p + p_vy ?p < 0"
    unfolding corner_first_particle by simp_all
  have f: "hd (particlesRef ?s) = ?p"
    by (simp add: corner_resize_particles hd_map)
  have k: "list_all (in_surface 100 100) (particlesRef ((drawParticles ^^ 2) ?s))
      \<and> particlesRef (drawParticles ?s) = map (updateParticle 100 100) (particlesRef ?s)
      \<and> p_x (updateParticle 100 100 ?p) = 100
      \<and> p_y (updateParticle 100 100 ?p) = 100"
    using particles_stay_on_surface [OF h, of 2 ?p] l t by (simp only: c simp_thms)
  from k have d: "particlesRef (drawParticles ?s) = map (updateParticle 100 100) (particlesRef ?s)"
    by simp
  have x1: "hd (particlesRef (drawParticles ?s)) = updateParticle 100 100 ?p"
    unfolding d by (simp add: corner_resize_particles hd_map)
  have x2: "hd (particlesRef ((drawParticles ^^ 2) ?s))
      = updateParticle 100 100 (updateParticle 100 100 ?p)"
    by (simp add: numeral_2_eq_2 drawParticles_fields c corner_resize_particles hd_map)
  have v2: "p_x (updateParticle 100 100 (updateParticle 100 100 ?p)) = 99.75"
    "p_y (updateParticle 100 100 (updateParticle 100 100 ?p)) = 99.75"
    unfolding corner_first_particle by (simp_all add: updateParticle_def Let_def)
  from h k l t f show ?thesis
    unfolding x1 x2 v2 by (simp only: c simp_thms)
qed

end
